theory Spec2Isabelle
  imports Main "HOL-Library.Word" "HOL-Library.Log_Nat"
begin

unbundle bit_operations_syntax

section \<open>C values: pointers, faults, floats\<close>

text \<open>
  The two drivers are C. A pointer is either the null pointer or an address; an
  execution that reads through a pointer that is null or no longer allocated, reads a
  buffer past its end, or converts a floating-point value that does not fit the target
  integer type has undefined behaviour in C: the model stops there with a \<open>fault\<close>.
\<close>

type_synonym u8 = "8 word"

type_synonym addr = nat

datatype ptr = NULL | Ptr addr

datatype fault = Null_dereference | Dangling_pointer | Out_of_bounds | Conversion_overflow

definition bindF :: "fault + 'a \<Rightarrow> ('a \<Rightarrow> fault + 'b) \<Rightarrow> fault + 'b" where
  "bindF m f = (case m of Inl e \<Rightarrow> Inl e | Inr x \<Rightarrow> f x)"

text \<open>
  A value of type \<open>float\<close> or \<open>double\<close>: a finite number, an infinity or a NaN. The
  signs of zero and of the infinities are not tracked; no operation below depends on them.
\<close>

datatype c_float = Finite rat | Infinite | NaN

text \<open>Rounding to the nearest integer, ties to the even one.\<close>

definition round_even :: "rat \<Rightarrow> int" where
  "round_even x =
     (let f = \<lfloor>x\<rfloor>; r = x - of_int f
      in if r < 1 / 2 then f
         else if 1 / 2 < r then f + 1
         else if even f then f else f + 1)"

text \<open>
  For a positive rational \<open>x\<close>, the exponent \<open>e\<close> with \<open>2 powi e \<le> x < 2 powi (e + 1)\<close>,
  computed from the bit lengths of numerator and denominator.
\<close>

definition binade :: "rat \<Rightarrow> int" where
  "binade x =
     (let (n, d) = quotient_of x;
          k = bitlen n - bitlen d
      in if 2 powi k \<le> x then k else k - 1)"

text \<open>
  IEEE 754 binary32, rounding to nearest with ties to even: 24 significant bits, the
  last place never below \<open>2 powi - 149\<close> (subnormal numbers), overflow to infinity from
  \<open>2 ^ 128\<close> on. This is what a C \<open>float\<close> operation returns for the exact result \<open>x\<close>.
\<close>

definition f32_round :: "rat \<Rightarrow> c_float" where
  "f32_round x =
     (if x = 0 then Finite 0
      else
        let a = \<bar>x\<bar>;
            q = max (binade a - 23) (- 149);
            v = of_int (round_even (a / 2 powi q)) * 2 powi q
        in if 2 ^ 128 \<le> v then Infinite else Finite (sgn x * v))"

text \<open>The conversion of an \<open>int\<close> operand to \<open>float\<close>.\<close>

definition f32_of_int :: "int \<Rightarrow> c_float" where
  "f32_of_int i = f32_round (of_int i)"

text \<open>The \<open>float\<close> division \<open>x / y\<close>.\<close>

fun f32_div :: "c_float \<Rightarrow> c_float \<Rightarrow> c_float" where
  "f32_div NaN y = NaN"
| "f32_div x NaN = NaN"
| "f32_div Infinite Infinite = NaN"
| "f32_div Infinite (Finite y) = Infinite"
| "f32_div (Finite x) Infinite = Finite 0"
| "f32_div (Finite x) (Finite y) =
     (if y = 0 then (if x = 0 then NaN else Infinite) else f32_round (x / y))"

text \<open>
  The cast \<open>(int)x\<close> of a \<open>double\<close>: truncation towards zero, undefined when the result
  is not a 32-bit \<open>int\<close>.
\<close>

definition int_of_double :: "c_float \<Rightarrow> fault + int" where
  "int_of_double x =
     (case x of
        Finite r \<Rightarrow>
          (let t = (if 0 \<le> r then \<lfloor>r\<rfloor> else \<lceil>r\<rceil>)
           in if - (2 ^ 31) \<le> t \<and> t < 2 ^ 31 then Inr t else Inl Conversion_overflow)
      | Infinite \<Rightarrow> Inl Conversion_overflow
      | NaN \<Rightarrow> Inl Conversion_overflow)"

section \<open>The TinySoundFont MIDI driver (midi/drivers/tsf\_midi.c)\<close>

subsection \<open>Data\<close>

text \<open>
  Modelled from the spec: \<open>midi_event_t\<close> is declared in \<open>midi_driver.h\<close>, which is
  not among the sources. The driver reads two members: \<open>data\<close>, a pointer to bytes,
  here the buffer it points to, and \<open>data_size\<close>, the length the event announces.
\<close>

record midi_event =
  data :: "u8 list"
  data_size :: nat

text \<open>The read \<open>event->data[i]\<close>.\<close>

definition data_at :: "midi_event \<Rightarrow> nat \<Rightarrow> fault + u8" where
  "data_at event i =
     (if i < length (data event) then Inr (data event ! i) else Inl Out_of_bounds)"

text \<open>The test \<open>!memcmp(event->data + off, bs, n)\<close>, with \<open>n\<close> the length of \<open>bs\<close>.\<close>

definition memcmp_eq :: "midi_event \<Rightarrow> nat \<Rightarrow> u8 list \<Rightarrow> fault + bool" where
  "memcmp_eq event off bs =
     (if off + length bs \<le> length (data event)
      then Inr (take (length bs) (drop off (data event)) = bs)
      else Inl Out_of_bounds)"

text \<open>
  The driver's handle. The member \<open>synth_lock\<close> exists only when the driver is built
  with \<open>HAVE_THREADS\<close>; every function below takes that build flag as its first
  argument and touches the member only when the flag is set.
\<close>

record tsf_midi_t =
  "instance" :: ptr
  synth_lock :: ptr

text \<open>The allocated handles, by address.\<close>

type_synonym heap = "addr \<rightharpoonup> tsf_midi_t"

text \<open>
  The read of a member through \<open>d\<close>, the handle pointer cast from \<open>void *p\<close>. An
  address that holds no handle is one that was never allocated or has been freed.
\<close>

definition deref :: "heap \<Rightarrow> ptr \<Rightarrow> fault + tsf_midi_t" where
  "deref h p =
     (case p of
        NULL \<Rightarrow> Inl Null_dereference
      | Ptr a \<Rightarrow> (case h a of None \<Rightarrow> Inl Dangling_pointer | Some d \<Rightarrow> Inr d))"

datatype output_mode = TSF_STEREO_INTERLEAVED | TSF_STEREO_UNWEAVED | TSF_MONO

text \<open>
  The calls the driver makes into the synthesizer, the lock, the allocator and the
  mixer, with the arguments as the driver passes them. A function of the driver
  returns the calls it made, in order. Calls that only fetch settings
  (\<open>config_get_ptr\<close>, \<open>video_viewport_get_system_av_info\<close>) or build a string
  (\<open>fill_pathname_join\<close>) are not listed: what they return is part of the
  \<open>environment\<close> below.
\<close>

datatype call =
    Tsf_load_filename string
  | Tsf_set_output ptr output_mode int c_float
  | Tsf_close ptr
  | Tsf_render_float ptr ptr nat int
  | Tsf_channel_set_presetnumber ptr u8 u8 bool
  | Tsf_channel_note_on ptr u8 u8 c_float
  | Tsf_channel_note_off ptr u8 u8
  | Tsf_channel_set_pitchwheel ptr u8 int
  | Tsf_channel_midi_control ptr u8 u8 u8
  | Tsf_set_volume ptr c_float
  | Slock_new
  | Slock_lock ptr
  | Slock_unlock ptr
  | Slock_free ptr
  | Calloc
  | Free ptr
  | Audio_mixer_play_synth ptr
  | Audio_driver_mixer_set_active

text \<open>The effect of a sequence of calls on whatever the callees own.\<close>

definition perform :: "(call \<Rightarrow> 'w \<Rightarrow> 'w) \<Rightarrow> fault + call list \<Rightarrow> 'w \<Rightarrow> fault + 'w" where
  "perform exec r w = (case r of Inl e \<Rightarrow> Inl e | Inr calls \<Rightarrow> Inr (fold exec calls w))"

subsection \<open>Message types and the lock macros\<close>

definition TSF_MIDI_NOTE_OFF :: u8 where "TSF_MIDI_NOTE_OFF = 0x80"
definition TSF_MIDI_NOTE_ON :: u8 where "TSF_MIDI_NOTE_ON = 0x90"
definition TSF_MIDI_KEY_PRESSURE :: u8 where "TSF_MIDI_KEY_PRESSURE = 0xA0"
definition TSF_MIDI_CONTROL_CHANGE :: u8 where "TSF_MIDI_CONTROL_CHANGE = 0xB0"
definition TSF_MIDI_PROGRAM_CHANGE :: u8 where "TSF_MIDI_PROGRAM_CHANGE = 0xC0"
definition TSF_MIDI_CHANNEL_PRESSURE :: u8 where "TSF_MIDI_CHANNEL_PRESSURE = 0xD0"
definition TSF_MIDI_PITCH_BEND :: u8 where "TSF_MIDI_PITCH_BEND = 0xE0"
definition TSF_MIDI_SYSEX :: u8 where "TSF_MIDI_SYSEX = 0xF0"

definition TSF_MIDI_SYNTH_LOCK :: "bool \<Rightarrow> heap \<Rightarrow> ptr \<Rightarrow> fault + call list" where
  "TSF_MIDI_SYNTH_LOCK have_threads h p =
     (if have_threads then bindF (deref h p) (\<lambda>d. Inr [Slock_lock (synth_lock d)])
      else Inr [])"

definition TSF_MIDI_SYNTH_UNLOCK :: "bool \<Rightarrow> heap \<Rightarrow> ptr \<Rightarrow> fault + call list" where
  "TSF_MIDI_SYNTH_UNLOCK have_threads h p =
     (if have_threads then bindF (deref h p) (\<lambda>d. Inr [Slock_unlock (synth_lock d)])
      else Inr [])"

subsection \<open>Output enumeration\<close>

text \<open>
  Modelled from the spec: \<open>string_list_append\<close> (\<open>lists/string_list.h\<close>) is not among
  the sources. A string list holds elements in order, each a string with an attribute;
  appending adds one element at the end and reports success.
\<close>

type_synonym string_list = "(string \<times> int) list"

definition string_list_append :: "string_list \<Rightarrow> string \<Rightarrow> int \<Rightarrow> bool \<times> string_list" where
  "string_list_append list elem attr = (True, list @ [(elem, attr)])"

definition tsf_midi_get_avail_outputs :: "string_list \<Rightarrow> bool \<times> string_list" where
  "tsf_midi_get_avail_outputs outputs =
     (let attr = 0;
          outputs = snd (string_list_append outputs ''SF2'' attr);
          outputs = snd (string_list_append outputs ''sf2'' attr);
          outputs = snd (string_list_append outputs ''GM'' attr);
          outputs = snd (string_list_append outputs ''gm'' attr)
      in (True, outputs))"

subsection \<open>The render callback\<close>

definition tsf_synth ::
  "bool \<Rightarrow> heap \<Rightarrow> ptr \<Rightarrow> ptr \<Rightarrow> nat \<Rightarrow> c_float \<Rightarrow> fault + call list" where
  "tsf_synth have_threads h p buffer num_frames volume =
     bindF (TSF_MIDI_SYNTH_LOCK have_threads h p) (\<lambda>lock.
     bindF (deref h p) (\<lambda>d.
     bindF (TSF_MIDI_SYNTH_UNLOCK have_threads h p) (\<lambda>unlock.
       Inr (lock @ [Tsf_render_float (instance d) buffer num_frames 1] @ unlock))))"

subsection \<open>Initialization and shutdown\<close>

text \<open>
  What \<open>tsf_midi_init\<close> takes from outside this file: the configured system directory,
  the core's sample rate (a \<open>double\<close>), the constant \<open>PATH_MAX_LENGTH\<close>, the path join,
  the sound-bank loader (null when loading fails), and the pointers that \<open>calloc\<close> and
  \<open>slock_new\<close> return.
\<close>

record environment =
  directory_system :: string
  sample_rate :: c_float
  PATH_MAX_LENGTH :: nat
  fill_pathname_join :: "string \<Rightarrow> string \<Rightarrow> nat \<Rightarrow> string"
  tsf_load_filename :: "string \<Rightarrow> ptr"
  calloc :: ptr
  slock_new :: ptr

text \<open>The strings \<open>input\<close> and \<open>output\<close> are pointers: \<open>None\<close> is the null pointer.\<close>

definition tsf_midi_init ::
  "bool \<Rightarrow> environment \<Rightarrow> heap \<Rightarrow> string option \<Rightarrow> string option
     \<Rightarrow> fault + (ptr \<times> heap \<times> call list)" where
  "tsf_midi_init have_threads env h input output =
     (case output of
        None \<Rightarrow> Inr (NULL, h, [])
      | Some _ \<Rightarrow>
          (let sf2path = fill_pathname_join env (directory_system env) ''GM.SF2''
                           (PATH_MAX_LENGTH env);
               inst = tsf_load_filename env sf2path
           in if inst = NULL then Inr (NULL, h, [Tsf_load_filename sf2path])
              else
                bindF (int_of_double (sample_rate env)) (\<lambda>rate.
                  (case calloc env of
                     NULL \<Rightarrow> Inl Null_dereference
                   | Ptr a \<Rightarrow>
                       Inr (Ptr a,
                            h(a \<mapsto> \<lparr>instance = inst,
                                     synth_lock = (if have_threads then slock_new env else NULL)\<rparr>),
                            [Tsf_load_filename sf2path,
                             Tsf_set_output inst TSF_STEREO_INTERLEAVED rate (Finite 0),
                             Calloc]
                            @ (if have_threads then [Slock_new] else [])
                            @ [Audio_mixer_play_synth (Ptr a),
                               Audio_driver_mixer_set_active])))))"

definition tsf_midi_free :: "bool \<Rightarrow> heap \<Rightarrow> ptr \<Rightarrow> fault + (heap \<times> call list)" where
  "tsf_midi_free have_threads h p =
     (case p of
        NULL \<Rightarrow> Inr (h, [])
      | Ptr a \<Rightarrow>
          bindF (deref h p) (\<lambda>d.
            Inr (h(a := None),
                 [Tsf_close (instance d)]
                 @ (if have_threads then [Slock_free (synth_lock d)] else [])
                 @ [Free p])))"

subsection \<open>Event dispatch\<close>

definition tsf_midi_write ::
  "bool \<Rightarrow> heap \<Rightarrow> ptr \<Rightarrow> midi_event \<Rightarrow> fault + (bool \<times> call list)" where
  "tsf_midi_write have_threads h p event =
     (if data_size event < 2 then Inr (False, [])
      else
        bindF (data_at event 0) (\<lambda>b0.
        bindF (data_at event 1) (\<lambda>b1.
        bindF (if 3 \<le> data_size event
               then bindF (data_at event 2) (\<lambda>b2. Inr (b2 AND 0x7f))
               else Inr 0) (\<lambda>p2.
        let channel = b0 AND 0x0f;
            p1 = b1 AND 0x7f;
            status = b0 AND 0xf0
        in
        bindF (TSF_MIDI_SYNTH_LOCK have_threads h p) (\<lambda>lock.
        bindF
          (if status = TSF_MIDI_PROGRAM_CHANGE then
             bindF (deref h p) (\<lambda>d.
               Inr [Tsf_channel_set_presetnumber (instance d) channel p1 (channel = 9)])
           else if status = TSF_MIDI_NOTE_ON then
             bindF (deref h p) (\<lambda>d.
               Inr [Tsf_channel_note_on (instance d) channel p1
                      (f32_div (f32_of_int (uint p2)) (Finite 127))])
           else if status = TSF_MIDI_NOTE_OFF then
             bindF (deref h p) (\<lambda>d.
               Inr [Tsf_channel_note_off (instance d) channel p1])
           else if status = TSF_MIDI_PITCH_BEND then
             bindF (deref h p) (\<lambda>d.
               Inr [Tsf_channel_set_pitchwheel (instance d) channel
                      (push_bit 7 (uint p2) OR uint p1)])
           else if status = TSF_MIDI_CONTROL_CHANGE then
             bindF (deref h p) (\<lambda>d.
               Inr [Tsf_channel_midi_control (instance d) channel p1 p2])
           else if status = TSF_MIDI_SYSEX then
             (if data_size event = 8 then
                bindF (memcmp_eq event 1 [0x7F, 0x7F, 0x04, 0x01]) (\<lambda>same.
                  if same then
                    bindF (data_at event 6) (\<lambda>b6.
                    bindF (data_at event 5) (\<lambda>b5.
                    bindF (deref h p) (\<lambda>d.
                      Inr [Tsf_set_volume (instance d)
                             (f32_div
                                (f32_of_int (push_bit 7 (uint (b6 AND 0x7F)) OR uint (b5 AND 0x7F)))
                                (Finite 16383))])))
                  else Inr [])
              else Inr [])
           else Inr []) (\<lambda>calls.
        bindF (TSF_MIDI_SYNTH_UNLOCK have_threads h p) (\<lambda>unlock.
          Inr (True, lock @ calls @ unlock))))))))"

section \<open>The Win32 window wrapper (ui/drivers/win32/ui\_win32\_window.c)\<close>

record ui_window_win32_t =
  hwnd :: addr

datatype show_command = SW_HIDE | SW_SHOWNORMAL

datatype os_call =
    DestroyWindow addr
  | SetFocus addr
  | ShowWindow addr show_command
  | SetWindowText addr string

text \<open>
  The function's parameters are \<open>data\<close>, here the window it points to, and
  \<open>set_visible\<close>. Its body does not read \<open>set_visible\<close>: the condition of the call is
  the identifier \<open>visible\<close>, which the function does not declare. Whatever that
  identifier denotes where the file is compiled is the first argument here.
\<close>

definition ui_window_win32_set_visible ::
  "bool \<Rightarrow> ui_window_win32_t \<Rightarrow> bool \<Rightarrow> os_call list" where
  "ui_window_win32_set_visible visible window set_visible =
     [ShowWindow (hwnd window) (if visible then SW_SHOWNORMAL else SW_HIDE)]"

section \<open>Reading the handle and the event\<close>

lemma bindF_Inr [simp]: "bindF (Inr x) f = f x"
  by (simp add: bindF_def)

lemma bindF_Inl [simp]: "bindF (Inl e) f = Inl e"
  by (simp add: bindF_def)

lemma deref_live [simp]: "h a = Some d \<Longrightarrow> deref h (Ptr a) = Inr d"
  by (simp add: deref_def)

lemma lock_live [simp]:
  "h a = Some d \<Longrightarrow>
   TSF_MIDI_SYNTH_LOCK ht h (Ptr a) = Inr (if ht then [Slock_lock (synth_lock d)] else [])"
  by (simp add: TSF_MIDI_SYNTH_LOCK_def)

lemma unlock_live [simp]:
  "h a = Some d \<Longrightarrow>
   TSF_MIDI_SYNTH_UNLOCK ht h (Ptr a) = Inr (if ht then [Slock_unlock (synth_lock d)] else [])"
  by (simp add: TSF_MIDI_SYNTH_UNLOCK_def)

lemma data_at_wf:
  "data_size event \<le> length (data event) \<Longrightarrow> i < data_size event \<Longrightarrow>
   data_at event i = Inr (data event ! i)"
  by (simp add: data_at_def)

lemma memcmp_eq_wf:
  "data_size event \<le> length (data event) \<Longrightarrow> off + length bs \<le> data_size event \<Longrightarrow>
   memcmp_eq event off bs = Inr (take (length bs) (drop off (data event)) = bs)"
  by (simp add: memcmp_eq_def)

lemmas status_defs =
  TSF_MIDI_NOTE_OFF_def TSF_MIDI_NOTE_ON_def TSF_MIDI_KEY_PRESSURE_def
  TSF_MIDI_CONTROL_CHANGE_def TSF_MIDI_PROGRAM_CHANGE_def TSF_MIDI_CHANNEL_PRESSURE_def
  TSF_MIDI_PITCH_BEND_def TSF_MIDI_SYSEX_def

section \<open>Rounding to binary32\<close>

lemma round_even_of_int: "round_even (of_int z) = z"
  by (simp add: round_even_def)

lemma round_even_nonneg: "0 \<le> x \<Longrightarrow> 0 \<le> round_even x"
  by (simp add: round_even_def Let_def)

lemma round_even_le:
  assumes "x \<le> of_int z"
  shows "round_even x \<le> z"
proof (cases "x = of_int z")
  case True
  then show ?thesis by (simp add: round_even_of_int)
next
  case False
  with assms have "x < of_int z" by simp
  then have "\<lfloor>x\<rfloor> < z" by (simp add: floor_less_iff)
  then show ?thesis by (simp add: round_even_def Let_def)
qed

lemma bitlen_mono: "0 < m \<Longrightarrow> m \<le> n \<Longrightarrow> bitlen m \<le> bitlen n"
  by (simp add: bitlen_def floorlog_mono)

lemma binade_le: "quotient_of x = (n, d) \<Longrightarrow> binade x \<le> bitlen n - bitlen d"
  by (simp add: binade_def Let_def)

lemma binade_unit:
  assumes "0 < x" "x \<le> 1"
  shows "binade x \<le> 0"
proof -
  obtain n d where q: "quotient_of x = (n, d)" by (cases "quotient_of x")
  then have d: "0 < d" and x: "x = of_int n / of_int d"
    by (simp_all add: quotient_of_denom_pos quotient_of_div)
  from assms d x have "0 < n" "n \<le> d"
    by (simp_all add: zero_less_divide_iff)
  then have "bitlen n \<le> bitlen d" by (rule bitlen_mono)
  with binade_le [OF q] show ?thesis by simp
qed

lemma binade_of_int:
  assumes "0 < i" "i < 2 ^ 24"
  shows "binade (of_int i) \<le> 23"
proof -
  have "bitlen i \<le> 24" using assms by (simp add: bitlen_le_iff_power)
  moreover have "bitlen 1 = 1" by (simp add: bitlen_alt_def)
  ultimately show ?thesis
    using binade_le [of "of_int i" i 1] by simp
qed

lemma powi_nonpos: "q \<le> 0 \<Longrightarrow> (2::rat) powi q = 1 / 2 ^ nat (- q)"
  by (simp add: power_int_def field_simps)

lemma f32_round_unit:
  assumes "0 \<le> x" "x \<le> 1"
  shows "\<exists>v. f32_round x = Finite v \<and> 0 \<le> v \<and> v \<le> 1"
proof (cases "x = 0")
  case True
  then show ?thesis by (simp add: f32_round_def)
next
  case False
  with assms have pos: "0 < x" by simp
  define q where "q = max (binade x - 23) (- 149)"
  define m where "m = nat (- q)"
  define r where "r = round_even (x * 2 ^ m)"
  have "q \<le> 0" using binade_unit [OF pos assms(2)] by (simp add: q_def)
  then have p: "(2::rat) powi q = 1 / 2 ^ m" by (simp add: powi_nonpos m_def)
  have "x * 2 ^ m \<le> of_int (2 ^ m)" using assms by (simp add: mult_le_cancel_right1)
  then have hi: "r \<le> 2 ^ m" unfolding r_def by (rule round_even_le)
  have lo: "0 \<le> r" unfolding r_def using assms by (simp add: round_even_nonneg)
  define v where "v = (of_int r :: rat) / 2 ^ m"
  have v0: "0 \<le> v" using lo by (simp add: v_def)
  have "(of_int r :: rat) \<le> of_int (2 ^ m)" using hi by (simp only: of_int_le_iff)
  then have v1: "v \<le> 1" by (simp add: v_def divide_le_eq_1)
  have "(1::rat) < 2 ^ 128" by simp
  with v1 have small: "\<not> 2 ^ 128 \<le> v" by linarith
  have "f32_round x = Finite v"
    using pos small
    by (simp add: f32_round_def Let_def q_def [symmetric] p r_def [symmetric] v_def)
  with v0 v1 show ?thesis by blast
qed

lemma f32_of_int_exact:
  assumes "0 \<le> i" "i < 2 ^ 24"
  shows "f32_of_int i = Finite (of_int i)"
proof (cases "i = 0")
  case True
  then show ?thesis by (simp add: f32_of_int_def f32_round_def)
next
  case False
  with assms have pos: "0 < i" by simp
  define q where "q = max (binade (of_int i) - 23) (- 149)"
  define m where "m = nat (- q)"
  have "q \<le> 0" using binade_of_int [OF pos assms(2)] by (simp add: q_def)
  then have p: "(2::rat) powi q = 1 / 2 ^ m" by (simp add: powi_nonpos m_def)
  have r: "round_even (of_int i * 2 ^ m) = i * 2 ^ m"
    using round_even_of_int [of "i * 2 ^ m"] by simp
  have "(of_int i :: rat) < of_int (2 ^ 24)"
    using assms(2) by (simp only: of_int_less_iff)
  also have "\<dots> < 2 ^ 128" by simp
  finally have small: "\<not> (2::rat) ^ 128 \<le> of_int i" by simp
  show ?thesis
    using pos small
    by (simp add: f32_of_int_def f32_round_def Let_def q_def [symmetric] p r)
qed

lemma uint_and_7f: "0 \<le> uint (b AND (0x7f::u8)) \<and> uint (b AND 0x7f) \<le> 127"
proof -
  have "b AND 0x7f \<le> 0x7f" by (rule word_and_le1)
  then have "uint (b AND 0x7f) \<le> uint (0x7f::u8)" by (simp add: word_le_def)
  then show ?thesis by simp
qed

lemma velocity_unit:
  "\<exists>v. f32_div (f32_of_int (uint (b AND (0x7f::u8)))) (Finite 127) = Finite v \<and> 0 \<le> v \<and> v \<le> 1"
proof -
  define i where "i = uint (b AND (0x7f::u8))"
  have i: "0 \<le> i" "i \<le> 127" using uint_and_7f [of b] by (simp_all add: i_def)
  then have "f32_of_int i = Finite (of_int i)" by (intro f32_of_int_exact) simp_all
  moreover have "0 \<le> (of_int i :: rat) / 127" "(of_int i :: rat) / 127 \<le> 1"
    using i by simp_all
  ultimately show ?thesis
    using f32_round_unit [of "of_int i / 127"] by (simp add: i_def)
qed

lemma f32_round_1: "f32_round 1 = Finite 1"
  by code_simp

text \<open>
  The definitions above are the rounding of the standard: \<open>binade\<close> is the exponent of
  its argument, \<open>round_even\<close> is within one half of its argument, and a finite result
  of \<open>f32_round\<close> is a significand of at most 24 bits times a power of two not below
  \<open>2 powi - 149\<close>, within half a unit in the last place of the exact value.
\<close>

lemma bitlen_powi:
  assumes "0 < n"
  shows "(2::rat) powi (bitlen n - 1) \<le> of_int n \<and> of_int n < (2::rat) powi bitlen n"
proof -
  have b: "1 \<le> bitlen n" using assms by (simp add: bitlen_alt_def)
  have "2 ^ nat (bitlen n - 1) \<le> n" "n < 2 ^ nat (bitlen n)"
    using bitlen_bounds [OF assms] by simp_all
  then have "(of_int (2 ^ nat (bitlen n - 1)) :: rat) \<le> of_int n"
    "(of_int n :: rat) < of_int (2 ^ nat (bitlen n))"
    by (simp_all only: of_int_le_iff of_int_less_iff)
  with b show ?thesis by (simp add: power_int_def)
qed

lemma binade_bounds:
  assumes "0 < x"
  shows "2 powi binade x \<le> x \<and> x < 2 powi (binade x + 1)"
proof -
  obtain n d where q: "quotient_of x = (n, d)" by (cases "quotient_of x")
  then have d: "0 < d" and x: "x = of_int n / of_int d"
    by (simp_all add: quotient_of_denom_pos quotient_of_div)
  from assms d x have n: "0 < n" by (simp add: zero_less_divide_iff)
  define k where "k = bitlen n - bitlen d"
  have nb: "(2::rat) powi (bitlen n - 1) \<le> of_int n" "of_int n < (2::rat) powi bitlen n"
    using bitlen_powi [OF n] by simp_all
  have db: "(2::rat) powi (bitlen d - 1) \<le> of_int d" "of_int d < (2::rat) powi bitlen d"
    using bitlen_powi [OF d] by simp_all
  have dpos: "(0::rat) < of_int d" using d by simp
  have "x * of_int d < 2 powi bitlen n" using nb(2) x dpos by simp
  moreover have "2 powi bitlen n = 2 powi (k + 1) * (2::rat) powi (bitlen d - 1)"
    by (simp add: k_def flip: power_int_add)
  moreover have "2 powi (k + 1) * (2::rat) powi (bitlen d - 1) \<le> 2 powi (k + 1) * of_int d"
    using db(1) by (simp add: mult_left_mono)
  ultimately have "x * of_int d < 2 powi (k + 1) * of_int d" by linarith
  then have up: "x < 2 powi (k + 1)" using dpos by simp
  have "2 powi (k - 1) * of_int d < 2 powi (k - 1) * (2::rat) powi bitlen d"
    using db(2) by (simp add: mult_strict_left_mono)
  moreover have "2 powi (k - 1) * (2::rat) powi bitlen d = 2 powi (bitlen n - 1)"
    by (simp add: k_def flip: power_int_add)
  moreover have "2 powi (bitlen n - 1) \<le> x * of_int d" using nb(1) x dpos by simp
  ultimately have "2 powi (k - 1) * of_int d < x * of_int d" by linarith
  then have lo: "2 powi (k - 1) < x" using dpos by simp
  show ?thesis
    using q up lo by (auto simp add: binade_def Let_def k_def [symmetric])
qed

lemma round_even_nearest: "\<bar>of_int (round_even x) - x\<bar> \<le> 1 / 2"
proof -
  have "of_int \<lfloor>x\<rfloor> \<le> x" "x < of_int \<lfloor>x\<rfloor> + 1" by linarith+
  then show ?thesis
    by (auto simp add: round_even_def Let_def abs_le_iff)
qed

lemma f32_round_nearest:
  assumes "x \<noteq> 0" and "q = max (binade \<bar>x\<bar> - 23) (- 149)"
  shows "f32_round x = Infinite
         \<or> (\<exists>m. f32_round x = Finite (sgn x * (of_int m * 2 powi q))
                \<and> 0 \<le> m \<and> m \<le> 2 ^ 24
                \<and> \<bar>of_int m * 2 powi q - \<bar>x\<bar>\<bar> \<le> 2 powi q / 2)"
proof -
  define m where "m = round_even (\<bar>x\<bar> / 2 powi q)"
  have pos: "0 < \<bar>x\<bar>" using assms(1) by simp
  have p: "(0::rat) < 2 powi q" by simp
  have "\<bar>x\<bar> < 2 powi (binade \<bar>x\<bar> + 1)" using binade_bounds [OF pos] by simp
  also have "\<dots> \<le> 2 powi (q + 24)"
    using assms(2) by (intro power_int_increasing) simp_all
  also have "\<dots> = 2 ^ 24 * 2 powi q" by (simp add: power_int_add)
  finally have "\<bar>x\<bar> / 2 powi q \<le> of_int (2 ^ 24)"
    using p by (simp add: pos_divide_le_eq)
  then have hi: "m \<le> 2 ^ 24" unfolding m_def by (rule round_even_le)
  have lo: "0 \<le> m" unfolding m_def by (intro round_even_nonneg) simp
  have "\<bar>of_int m - \<bar>x\<bar> / 2 powi q\<bar> \<le> 1 / 2"
    unfolding m_def by (rule round_even_nearest)
  then have "\<bar>of_int m - \<bar>x\<bar> / 2 powi q\<bar> * 2 powi q \<le> 1 / 2 * 2 powi q"
    using p by (intro mult_right_mono) simp_all
  moreover have "\<bar>of_int m - \<bar>x\<bar> / 2 powi q\<bar> * 2 powi q = \<bar>of_int m * 2 powi q - \<bar>x\<bar>\<bar>"
  proof -
    have "\<bar>of_int m - \<bar>x\<bar> / 2 powi q\<bar> * 2 powi q
            = \<bar>(of_int m - \<bar>x\<bar> / 2 powi q) * 2 powi q\<bar>"
      using p by (simp add: abs_mult)
    also have "(of_int m - \<bar>x\<bar> / 2 powi q) * 2 powi q = of_int m * 2 powi q - \<bar>x\<bar>"
      using p by (simp add: left_diff_distrib)
    finally show ?thesis .
  qed
  ultimately have near: "\<bar>of_int m * 2 powi q - \<bar>x\<bar>\<bar> \<le> 2 powi q / 2" by simp
  have "f32_round x = Infinite \<or> f32_round x = Finite (sgn x * (of_int m * 2 powi q))"
    using assms by (simp add: f32_round_def Let_def m_def)
  with lo hi near show ?thesis by blast
qed

section \<open>Two seven-bit bytes packed into fourteen bits\<close>

lemma packed_14bit_range:
  "0 \<le> push_bit 7 (uint (x AND (0x7f::u8))) OR uint (y AND (0x7f::u8))
   \<and> push_bit 7 (uint (x AND (0x7f::u8))) OR uint (y AND (0x7f::u8)) \<le> 16383"
proof -
  define i where "i = uint (x AND (0x7f::u8))"
  define j where "j = uint (y AND (0x7f::u8))"
  have i: "0 \<le> i" "i \<le> 127" using uint_and_7f [of x] by (simp_all add: i_def)
  have j: "0 \<le> j" "j \<le> 127" using uint_and_7f [of y] by (simp_all add: j_def)
  have s: "push_bit 7 i = i * 128" by (simp add: push_bit_eq_mult)
  have "push_bit 7 i OR j < 2 ^ 14"
    using i j by (intro OR_upper) (simp_all add: s)
  moreover have "0 \<le> push_bit 7 i OR j" using i j by simp
  ultimately show ?thesis by (simp add: i_def j_def)
qed

lemma packed_14bit_quotient:
  "\<exists>v. f32_div
          (f32_of_int (push_bit 7 (uint (x AND (0x7f::u8))) OR uint (y AND (0x7f::u8))))
          (Finite 16383) = Finite v
        \<and> 0 \<le> v \<and> v \<le> 1"
proof -
  define i where "i = push_bit 7 (uint (x AND (0x7f::u8))) OR uint (y AND (0x7f::u8))"
  have i: "0 \<le> i" "i \<le> 16383" using packed_14bit_range [of x y] by (simp_all add: i_def)
  then have "f32_of_int i = Finite (of_int i)" by (intro f32_of_int_exact) simp_all
  moreover have "0 \<le> (of_int i :: rat) / 16383" "(of_int i :: rat) / 16383 \<le> 1"
    using i by simp_all
  ultimately show ?thesis
    using f32_round_unit [of "of_int i / 16383"] by (simp add: i_def)
qed

section \<open>Dispatch: the length check\<close>

lemma write_short: "data_size event < 2 \<Longrightarrow> tsf_midi_write ht h p event = Inr (False, [])"
  by (simp add: tsf_midi_write_def)

lemma write_accepts:
  assumes "2 \<le> data_size event" "data_size event \<le> length (data event)" "h a = Some d"
  shows "\<exists>calls. tsf_midi_write ht h (Ptr a) event = Inr (True, calls)"
  using assms
  by (simp add: tsf_midi_write_def Let_def data_at_wf memcmp_eq_wf)

lemma write_False_only_short:
  "tsf_midi_write ht h p event = Inr (False, calls) \<Longrightarrow> data_size event < 2"
  by (auto simp: tsf_midi_write_def bindF_def Let_def split: if_splits sum.splits)

text \<open>
  Claim C1. An event whose \<open>data_size\<close> is below 2 is rejected, whatever the handle
  and the buffer, and no call is made: not into the synthesizer, not even on the lock.
  Rejection happens for no other event. An event of two or more bytes, on a live
  handle and with a buffer that holds the bytes it announces, is accepted, whatever
  its status byte.
\<close>

theorem tsf_midi_write_length_check:
  "(data_size event < 2 \<longrightarrow> tsf_midi_write ht h p event = Inr (False, []))
   \<and> ((\<exists>calls. tsf_midi_write ht h p event = Inr (False, calls)) \<longleftrightarrow> data_size event < 2)
   \<and> (2 \<le> data_size event \<and> data_size event \<le> length (data event) \<and> h a = Some d
        \<longrightarrow> (\<exists>calls. tsf_midi_write ht h (Ptr a) event = Inr (True, calls)))"
  using write_short [of event ht h p] write_False_only_short [of ht h p event]
    write_accepts [of event h a d ht]
  by blast

theorem tsf_midi_write_length_check_witness:
  "data_size \<lparr>data = [0x90], data_size = 1\<rparr> < 2
   \<and> tsf_midi_write True Map.empty NULL \<lparr>data = [0x90], data_size = 1\<rparr> = Inr (False, [])
   \<and> 2 \<le> data_size \<lparr>data = [0xA5, 0x3C, 0x40], data_size = 3\<rparr>
   \<and> data_size \<lparr>data = [0xA5, 0x3C, 0x40], data_size = 3\<rparr>
        \<le> length (data \<lparr>data = [0xA5, 0x3C, 0x40], data_size = 3\<rparr>)
   \<and> [1 \<mapsto> \<lparr>instance = Ptr 7, synth_lock = Ptr 8\<rparr>] 1
        = Some \<lparr>instance = Ptr 7, synth_lock = Ptr 8\<rparr>
   \<and> (\<exists>calls. tsf_midi_write True [1 \<mapsto> \<lparr>instance = Ptr 7, synth_lock = Ptr 8\<rparr>] (Ptr 1)
          \<lparr>data = [0xA5, 0x3C, 0x40], data_size = 3\<rparr> = Inr (True, calls))"
  using tsf_midi_write_length_check
      [of "\<lparr>data = [0x90], data_size = 1\<rparr>" True Map.empty NULL 1
          "\<lparr>instance = Ptr 7, synth_lock = Ptr 8\<rparr>"]
    tsf_midi_write_length_check
      [of "\<lparr>data = [0xA5, 0x3C, 0x40], data_size = 3\<rparr>" True
          "[1 \<mapsto> \<lparr>instance = Ptr 7, synth_lock = Ptr 8\<rparr>]" "Ptr 1" 1
          "\<lparr>instance = Ptr 7, synth_lock = Ptr 8\<rparr>"]
  by simp

section \<open>Dispatch: Program Change\<close>

text \<open>
  Claim C6. A Program Change event makes exactly one synthesizer call, the preset
  change on the event's channel, and its drum flag is the truth value of
  \<open>channel = 9\<close>, the channel being the low nibble of the status byte.
\<close>

theorem program_change_drum_flag:
  assumes "2 \<le> data_size event" and "data_size event \<le> length (data event)"
    and "h a = Some d"
    and "data event ! 0 AND 0xf0 = TSF_MIDI_PROGRAM_CHANGE"
  shows "tsf_midi_write ht h (Ptr a) event =
           Inr (True,
                (if ht then [Slock_lock (synth_lock d)] else [])
                @ [Tsf_channel_set_presetnumber (instance d) (data event ! 0 AND 0x0f)
                     (data event ! 1 AND 0x7f) (data event ! 0 AND 0x0f = 9)]
                @ (if ht then [Slock_unlock (synth_lock d)] else []))"
  using assms
  by (simp add: tsf_midi_write_def Let_def data_at_wf)

theorem program_change_drum_flag_witness:
  "2 \<le> data_size \<lparr>data = [0xC9, 0x05], data_size = 2\<rparr>
   \<and> data_size \<lparr>data = [0xC9, 0x05], data_size = 2\<rparr>
         \<le> length (data \<lparr>data = [0xC9, 0x05], data_size = 2\<rparr>)
   \<and> [1 \<mapsto> \<lparr>instance = Ptr 7, synth_lock = Ptr 8\<rparr>] 1
         = Some \<lparr>instance = Ptr 7, synth_lock = Ptr 8\<rparr>
   \<and> data \<lparr>data = [0xC9, 0x05], data_size = 2\<rparr> ! 0 AND 0xf0 = TSF_MIDI_PROGRAM_CHANGE
   \<and> tsf_midi_write False [1 \<mapsto> \<lparr>instance = Ptr 7, synth_lock = Ptr 8\<rparr>] (Ptr 1)
         \<lparr>data = [0xC9, 0x05], data_size = 2\<rparr>
       = Inr (True, [Tsf_channel_set_presetnumber (Ptr 7) 9 5 True])
   \<and> tsf_midi_write False [1 \<mapsto> \<lparr>instance = Ptr 7, synth_lock = Ptr 8\<rparr>] (Ptr 1)
         \<lparr>data = [0xC3, 0x05], data_size = 2\<rparr>
       = Inr (True, [Tsf_channel_set_presetnumber (Ptr 7) 3 5 False])"
  using program_change_drum_flag
      [of "\<lparr>data = [0xC9, 0x05], data_size = 2\<rparr>"
          "[1 \<mapsto> \<lparr>instance = Ptr 7, synth_lock = Ptr 8\<rparr>]" 1
          "\<lparr>instance = Ptr 7, synth_lock = Ptr 8\<rparr>" False]
    program_change_drum_flag
      [of "\<lparr>data = [0xC3, 0x05], data_size = 2\<rparr>"
          "[1 \<mapsto> \<lparr>instance = Ptr 7, synth_lock = Ptr 8\<rparr>]" 1
          "\<lparr>instance = Ptr 7, synth_lock = Ptr 8\<rparr>" False]
  by (simp add: TSF_MIDI_PROGRAM_CHANGE_def)

section \<open>Dispatch: Pitch Bend\<close>

text \<open>
  Claim C5. A Pitch Bend event of three or more bytes sets the pitch wheel of its
  channel to \<open>((byte2 & 0x7F) << 7) | (byte1 & 0x7F)\<close>, computed on \<open>int\<close>. The value
  lies between 0 and 16383, and is 16383 when both data bytes are \<open>0x7F\<close>.
\<close>

theorem pitch_bend_value:
  assumes "3 \<le> data_size event" and "data_size event \<le> length (data event)"
    and "h a = Some d"
    and "data event ! 0 AND 0xf0 = TSF_MIDI_PITCH_BEND"
  shows "tsf_midi_write ht h (Ptr a) event =
           Inr (True,
                (if ht then [Slock_lock (synth_lock d)] else [])
                @ [Tsf_channel_set_pitchwheel (instance d) (data event ! 0 AND 0x0f)
                     (push_bit 7 (uint (data event ! 2 AND 0x7f))
                        OR uint (data event ! 1 AND 0x7f))]
                @ (if ht then [Slock_unlock (synth_lock d)] else []))
         \<and> 0 \<le> push_bit 7 (uint (data event ! 2 AND 0x7f)) OR uint (data event ! 1 AND 0x7f)
         \<and> push_bit 7 (uint (data event ! 2 AND 0x7f)) OR uint (data event ! 1 AND 0x7f)
              \<le> 16383
         \<and> (data event ! 1 AND 0x7f = 0x7f \<and> data event ! 2 AND 0x7f = 0x7f \<longrightarrow>
              push_bit 7 (uint (data event ! 2 AND 0x7f)) OR uint (data event ! 1 AND 0x7f)
                = 16383)"
proof -
  have "tsf_midi_write ht h (Ptr a) event =
           Inr (True,
                (if ht then [Slock_lock (synth_lock d)] else [])
                @ [Tsf_channel_set_pitchwheel (instance d) (data event ! 0 AND 0x0f)
                     (push_bit 7 (uint (data event ! 2 AND 0x7f))
                        OR uint (data event ! 1 AND 0x7f))]
                @ (if ht then [Slock_unlock (synth_lock d)] else []))"
    using assms
    by (simp add: tsf_midi_write_def Let_def data_at_wf status_defs)
  moreover have "push_bit 7 (uint (0x7f::u8)) OR uint (0x7f::u8) = 16383"
    by simp
  ultimately show ?thesis
    using packed_14bit_range [of "data event ! 2" "data event ! 1"] by simp
qed

theorem pitch_bend_value_witness:
  "3 \<le> data_size \<lparr>data = [0xE2, 0x7F, 0x7F], data_size = 3\<rparr>
   \<and> data_size \<lparr>data = [0xE2, 0x7F, 0x7F], data_size = 3\<rparr>
         \<le> length (data \<lparr>data = [0xE2, 0x7F, 0x7F], data_size = 3\<rparr>)
   \<and> [1 \<mapsto> \<lparr>instance = Ptr 7, synth_lock = Ptr 8\<rparr>] 1
         = Some \<lparr>instance = Ptr 7, synth_lock = Ptr 8\<rparr>
   \<and> data \<lparr>data = [0xE2, 0x7F, 0x7F], data_size = 3\<rparr> ! 0 AND 0xf0 = TSF_MIDI_PITCH_BEND
   \<and> data \<lparr>data = [0xE2, 0x7F, 0x7F], data_size = 3\<rparr> ! 1 AND 0x7f = 0x7f
   \<and> data \<lparr>data = [0xE2, 0x7F, 0x7F], data_size = 3\<rparr> ! 2 AND 0x7f = 0x7f
   \<and> tsf_midi_write True [1 \<mapsto> \<lparr>instance = Ptr 7, synth_lock = Ptr 8\<rparr>] (Ptr 1)
         \<lparr>data = [0xE2, 0x7F, 0x7F], data_size = 3\<rparr>
       = Inr (True, [Slock_lock (Ptr 8), Tsf_channel_set_pitchwheel (Ptr 7) 2 16383,
                     Slock_unlock (Ptr 8)])"
  using pitch_bend_value
      [of "\<lparr>data = [0xE2, 0x7F, 0x7F], data_size = 3\<rparr>"
          "[1 \<mapsto> \<lparr>instance = Ptr 7, synth_lock = Ptr 8\<rparr>]" 1
          "\<lparr>instance = Ptr 7, synth_lock = Ptr 8\<rparr>" True]
  by (simp add: TSF_MIDI_PITCH_BEND_def)

section \<open>Dispatch: Note On\<close>

lemma write_note_on:
  assumes "2 \<le> data_size event" and "data_size event \<le> length (data event)"
    and "h a = Some d"
    and "data event ! 0 AND 0xf0 = TSF_MIDI_NOTE_ON"
  shows "tsf_midi_write ht h (Ptr a) event =
           Inr (True,
                (if ht then [Slock_lock (synth_lock d)] else [])
                @ [Tsf_channel_note_on (instance d) (data event ! 0 AND 0x0f)
                     (data event ! 1 AND 0x7f)
                     (f32_div
                        (f32_of_int
                           (uint (if 3 \<le> data_size event then data event ! 2 AND 0x7f else 0)))
                        (Finite 127))]
                @ (if ht then [Slock_unlock (synth_lock d)] else []))"
  using assms
  by (simp add: tsf_midi_write_def Let_def data_at_wf status_defs)

lemma velocity_zero: "f32_div (f32_of_int (uint (0::u8))) (Finite 127) = Finite 0"
  by (simp add: f32_of_int_def f32_round_def)

lemma velocity_full: "f32_div (f32_of_int (uint (0x7f::u8))) (Finite 127) = Finite 1"
  by (simp add: f32_of_int_exact f32_round_1)

text \<open>
  Claim C7. A Note On event starts note \<open>byte1 & 0x7F\<close> on its channel with the velocity
  \<open>p2 / 127.0f\<close>, a \<open>float\<close> division, where \<open>p2\<close> is \<open>byte2 & 0x7F\<close>, or 0 when the event
  has no third byte. The velocity is a finite number between 0 and 1; it is exactly 1
  for \<open>p2 = 127\<close> and exactly 0 for \<open>p2 = 0\<close>.
\<close>

theorem note_on_velocity:
  assumes "2 \<le> data_size event" and "data_size event \<le> length (data event)"
    and "h a = Some d"
    and "data event ! 0 AND 0xf0 = TSF_MIDI_NOTE_ON"
    and "p2 = (if 3 \<le> data_size event then data event ! 2 AND 0x7f else 0)"
  shows "tsf_midi_write ht h (Ptr a) event =
           Inr (True,
                (if ht then [Slock_lock (synth_lock d)] else [])
                @ [Tsf_channel_note_on (instance d) (data event ! 0 AND 0x0f)
                     (data event ! 1 AND 0x7f)
                     (f32_div (f32_of_int (uint p2)) (Finite 127))]
                @ (if ht then [Slock_unlock (synth_lock d)] else []))
         \<and> (\<exists>v. f32_div (f32_of_int (uint p2)) (Finite 127) = Finite v \<and> 0 \<le> v \<and> v \<le> 1)
         \<and> (p2 = 127 \<longrightarrow> f32_div (f32_of_int (uint p2)) (Finite 127) = Finite 1)
         \<and> (p2 = 0 \<longrightarrow> f32_div (f32_of_int (uint p2)) (Finite 127) = Finite 0)
         \<and> (data_size event < 3 \<longrightarrow> p2 = 0)"
proof -
  have "p2 = p2 AND 0x7f"
    using assms(5) by (simp add: and.assoc)
  then have "\<exists>v. f32_div (f32_of_int (uint p2)) (Finite 127) = Finite v \<and> 0 \<le> v \<and> v \<le> 1"
    using velocity_unit [of p2] by simp
  then show ?thesis
    using write_note_on [of event h a d ht] assms velocity_zero velocity_full
    by simp
qed

theorem note_on_velocity_witness:
  "2 \<le> data_size \<lparr>data = [0x91, 0x3C, 0x7F], data_size = 3\<rparr>
   \<and> data_size \<lparr>data = [0x91, 0x3C, 0x7F], data_size = 3\<rparr>
         \<le> length (data \<lparr>data = [0x91, 0x3C, 0x7F], data_size = 3\<rparr>)
   \<and> [1 \<mapsto> \<lparr>instance = Ptr 7, synth_lock = Ptr 8\<rparr>] 1
         = Some \<lparr>instance = Ptr 7, synth_lock = Ptr 8\<rparr>
   \<and> data \<lparr>data = [0x91, 0x3C, 0x7F], data_size = 3\<rparr> ! 0 AND 0xf0 = TSF_MIDI_NOTE_ON
   \<and> (127::u8) = (if 3 \<le> data_size \<lparr>data = [0x91, 0x3C, 0x7F], data_size = 3\<rparr>
                   then data \<lparr>data = [0x91, 0x3C, 0x7F], data_size = 3\<rparr> ! 2 AND 0x7f else 0)
   \<and> tsf_midi_write False [1 \<mapsto> \<lparr>instance = Ptr 7, synth_lock = Ptr 8\<rparr>] (Ptr 1)
         \<lparr>data = [0x91, 0x3C, 0x7F], data_size = 3\<rparr>
       = Inr (True, [Tsf_channel_note_on (Ptr 7) 1 0x3C (Finite 1)])
   \<and> (0::u8) = (if 3 \<le> data_size \<lparr>data = [0x91, 0x3C], data_size = 2\<rparr>
                 then data \<lparr>data = [0x91, 0x3C], data_size = 2\<rparr> ! 2 AND 0x7f else 0)
   \<and> tsf_midi_write False [1 \<mapsto> \<lparr>instance = Ptr 7, synth_lock = Ptr 8\<rparr>] (Ptr 1)
         \<lparr>data = [0x91, 0x3C], data_size = 2\<rparr>
       = Inr (True, [Tsf_channel_note_on (Ptr 7) 1 0x3C (Finite 0)])"
  using note_on_velocity
      [of "\<lparr>data = [0x91, 0x3C, 0x7F], data_size = 3\<rparr>"
          "[1 \<mapsto> \<lparr>instance = Ptr 7, synth_lock = Ptr 8\<rparr>]" 1
          "\<lparr>instance = Ptr 7, synth_lock = Ptr 8\<rparr>" 127 False]
    note_on_velocity
      [of "\<lparr>data = [0x91, 0x3C], data_size = 2\<rparr>"
          "[1 \<mapsto> \<lparr>instance = Ptr 7, synth_lock = Ptr 8\<rparr>]" 1
          "\<lparr>instance = Ptr 7, synth_lock = Ptr 8\<rparr>" 0 False]
  by (simp add: TSF_MIDI_NOTE_ON_def)

section \<open>Dispatch: System Exclusive\<close>

lemma memcmp_eq_4:
  "data_size event \<le> length (data event) \<Longrightarrow> off + 4 \<le> data_size event \<Longrightarrow>
   memcmp_eq event off [b1, b2, b3, b4]
     = Inr (take 4 (drop off (data event)) = [b1, b2, b3, b4])"
  by (simp add: memcmp_eq_def eval_nat_numeral)

lemma write_sysex_match:
  assumes "data_size event = 8" and "data_size event \<le> length (data event)"
    and "h a = Some d"
    and "data event ! 0 AND 0xf0 = TSF_MIDI_SYSEX"
    and "take 4 (drop 1 (data event)) = [0x7F, 0x7F, 0x04, 0x01]"
  shows "tsf_midi_write ht h (Ptr a) event =
           Inr (True,
                (if ht then [Slock_lock (synth_lock d)] else [])
                @ [Tsf_set_volume (instance d)
                     (f32_div
                        (f32_of_int
                           (push_bit 7 (uint (data event ! 6 AND 0x7F))
                              OR uint (data event ! 5 AND 0x7F)))
                        (Finite 16383))]
                @ (if ht then [Slock_unlock (synth_lock d)] else []))"
  using assms
  by (simp add: tsf_midi_write_def Let_def data_at_wf memcmp_eq_4 status_defs)

lemma write_sysex_other:
  assumes "2 \<le> data_size event" and "data_size event \<le> length (data event)"
    and "h a = Some d"
    and "data event ! 0 AND 0xf0 = TSF_MIDI_SYSEX"
    and "\<not> (data_size event = 8 \<and> take 4 (drop 1 (data event)) = [0x7F, 0x7F, 0x04, 0x01])"
  shows "tsf_midi_write ht h (Ptr a) event =
           Inr (True,
                (if ht then [Slock_lock (synth_lock d)] else [])
                @ (if ht then [Slock_unlock (synth_lock d)] else []))"
  using assms
  by (simp add: tsf_midi_write_def Let_def data_at_wf memcmp_eq_4 status_defs)

lemma set_volume_only_sysex:
  assumes "2 \<le> data_size event" and "data_size event \<le> length (data event)"
    and "h a = Some d"
    and "tsf_midi_write ht h (Ptr a) event = Inr (r, calls)"
    and "Tsf_set_volume i v \<in> set calls"
  shows "data event ! 0 AND 0xf0 = TSF_MIDI_SYSEX \<and> data_size event = 8
         \<and> take 4 (drop 1 (data event)) = [0x7F, 0x7F, 0x04, 0x01]"
  using assms
  by (auto simp add: tsf_midi_write_def Let_def data_at_wf memcmp_eq_4
      split: if_splits)

lemma volume_full:
  "f32_div (f32_of_int (push_bit 7 (uint (0x7F::u8)) OR uint (0x7F::u8))) (Finite 16383)
     = Finite 1"
  by (simp add: f32_of_int_exact f32_round_1)

text \<open>
  Claim C2. A System Exclusive event of exactly 8 bytes whose bytes 1 to 4 are
  \<open>7F 7F 04 01\<close> sets the master volume to the \<open>float\<close> quotient of
  \<open>((byte6 & 0x7F) << 7) | (byte5 & 0x7F)\<close> by \<open>16383.0f\<close>, which is exactly 1 when both
  bytes are \<open>0x7F\<close> and lies between 0 and 1 in any case. Any other System Exclusive
  event makes no synthesizer call, and no event of another kind sets the volume.
\<close>

theorem sysex_master_volume:
  assumes "2 \<le> data_size event" and "data_size event \<le> length (data event)"
    and "h a = Some d"
    and "matches \<longleftrightarrow>
           data event ! 0 AND 0xf0 = TSF_MIDI_SYSEX \<and> data_size event = 8
           \<and> take 4 (drop 1 (data event)) = [0x7F, 0x7F, 0x04, 0x01]"
    and "volume =
           f32_div
             (f32_of_int
                (push_bit 7 (uint (data event ! 6 AND 0x7F)) OR uint (data event ! 5 AND 0x7F)))
             (Finite 16383)"
  shows "(matches \<longrightarrow>
            tsf_midi_write ht h (Ptr a) event =
              Inr (True,
                   (if ht then [Slock_lock (synth_lock d)] else [])
                   @ [Tsf_set_volume (instance d) volume]
                   @ (if ht then [Slock_unlock (synth_lock d)] else [])))
         \<and> (\<exists>v. volume = Finite v \<and> 0 \<le> v \<and> v \<le> 1)
         \<and> (data event ! 5 AND 0x7F = 0x7F \<and> data event ! 6 AND 0x7F = 0x7F \<longrightarrow>
              volume = Finite 1)
         \<and> (data event ! 0 AND 0xf0 = TSF_MIDI_SYSEX \<and> \<not> matches \<longrightarrow>
              tsf_midi_write ht h (Ptr a) event =
                Inr (True,
                     (if ht then [Slock_lock (synth_lock d)] else [])
                     @ (if ht then [Slock_unlock (synth_lock d)] else [])))
         \<and> (\<forall>r calls i v.
               tsf_midi_write ht h (Ptr a) event = Inr (r, calls)
               \<and> Tsf_set_volume i v \<in> set calls \<longrightarrow> matches)"
proof (intro conjI impI allI)
  assume matches
  with assms show "tsf_midi_write ht h (Ptr a) event =
              Inr (True,
                   (if ht then [Slock_lock (synth_lock d)] else [])
                   @ [Tsf_set_volume (instance d) volume]
                   @ (if ht then [Slock_unlock (synth_lock d)] else []))"
    by (simp add: write_sysex_match)
next
  show "\<exists>v. volume = Finite v \<and> 0 \<le> v \<and> v \<le> 1"
    using packed_14bit_quotient [of "data event ! 6" "data event ! 5"] assms(5) by simp
next
  assume "data event ! 5 AND 0x7F = 0x7F \<and> data event ! 6 AND 0x7F = 0x7F"
  then show "volume = Finite 1"
    using volume_full assms(5) by simp
next
  assume "data event ! 0 AND 0xf0 = TSF_MIDI_SYSEX \<and> \<not> matches"
  with assms show "tsf_midi_write ht h (Ptr a) event =
                Inr (True,
                     (if ht then [Slock_lock (synth_lock d)] else [])
                     @ (if ht then [Slock_unlock (synth_lock d)] else []))"
    by (intro write_sysex_other) simp_all
next
  fix r calls i v
  assume "tsf_midi_write ht h (Ptr a) event = Inr (r, calls)
            \<and> Tsf_set_volume i v \<in> set calls"
  then show matches
    using set_volume_only_sysex [of event h a d ht r calls i v] assms(1-4) by simp
qed

theorem sysex_master_volume_witness:
  "2 \<le> data_size \<lparr>data = [0xF0, 0x7F, 0x7F, 0x04, 0x01, 0x7F, 0x7F, 0xF7], data_size = 8\<rparr>
   \<and> data_size \<lparr>data = [0xF0, 0x7F, 0x7F, 0x04, 0x01, 0x7F, 0x7F, 0xF7], data_size = 8\<rparr>
        \<le> length (data \<lparr>data = [0xF0, 0x7F, 0x7F, 0x04, 0x01, 0x7F, 0x7F, 0xF7], data_size = 8\<rparr>)
   \<and> [1 \<mapsto> \<lparr>instance = Ptr 7, synth_lock = Ptr 8\<rparr>] 1
        = Some \<lparr>instance = Ptr 7, synth_lock = Ptr 8\<rparr>
   \<and> data \<lparr>data = [0xF0, 0x7F, 0x7F, 0x04, 0x01, 0x7F, 0x7F, 0xF7], data_size = 8\<rparr> ! 0
        AND 0xf0 = TSF_MIDI_SYSEX
   \<and> take 4 (drop 1 (data \<lparr>data = [0xF0, 0x7F, 0x7F, 0x04, 0x01, 0x7F, 0x7F, 0xF7], data_size = 8\<rparr>))
        = [0x7F, 0x7F, 0x04, 0x01]
   \<and> f32_div (f32_of_int (push_bit 7 (uint (0x7F AND 0x7F :: u8)) OR uint (0x7F AND 0x7F :: u8)))
        (Finite 16383) = Finite 1
   \<and> tsf_midi_write False [1 \<mapsto> \<lparr>instance = Ptr 7, synth_lock = Ptr 8\<rparr>] (Ptr 1)
        \<lparr>data = [0xF0, 0x7F, 0x7F, 0x04, 0x01, 0x7F, 0x7F, 0xF7], data_size = 8\<rparr>
       = Inr (True, [Tsf_set_volume (Ptr 7) (Finite 1)])
   \<and> tsf_midi_write False [1 \<mapsto> \<lparr>instance = Ptr 7, synth_lock = Ptr 8\<rparr>] (Ptr 1)
        \<lparr>data = [0xF0, 0x7E, 0x7F, 0x04, 0x01, 0x7F, 0x7F, 0xF7], data_size = 8\<rparr>
       = Inr (True, [])
   \<and> tsf_midi_write False [1 \<mapsto> \<lparr>instance = Ptr 7, synth_lock = Ptr 8\<rparr>] (Ptr 1)
        \<lparr>data = [0xF0, 0x7F, 0x7F, 0x04, 0x01, 0x7F, 0x7F], data_size = 7\<rparr>
       = Inr (True, [])"
  using sysex_master_volume
      [of "\<lparr>data = [0xF0, 0x7F, 0x7F, 0x04, 0x01, 0x7F, 0x7F, 0xF7], data_size = 8\<rparr>"
          "[1 \<mapsto> \<lparr>instance = Ptr 7, synth_lock = Ptr 8\<rparr>]" 1
          "\<lparr>instance = Ptr 7, synth_lock = Ptr 8\<rparr>" True "Finite 1" False]
    sysex_master_volume
      [of "\<lparr>data = [0xF0, 0x7E, 0x7F, 0x04, 0x01, 0x7F, 0x7F, 0xF7], data_size = 8\<rparr>"
          "[1 \<mapsto> \<lparr>instance = Ptr 7, synth_lock = Ptr 8\<rparr>]" 1
          "\<lparr>instance = Ptr 7, synth_lock = Ptr 8\<rparr>" False "Finite 1" False]
    sysex_master_volume
      [of "\<lparr>data = [0xF0, 0x7F, 0x7F, 0x04, 0x01, 0x7F, 0x7F], data_size = 7\<rparr>"
          "[1 \<mapsto> \<lparr>instance = Ptr 7, synth_lock = Ptr 8\<rparr>]" 1
          "\<lparr>instance = Ptr 7, synth_lock = Ptr 8\<rparr>" False "Finite 1" False]
    volume_full
  by (simp add: TSF_MIDI_SYSEX_def)

section \<open>The render callback\<close>

text \<open>
  Claim C9. The render callback does not use its \<open>volume\<close> parameter: two invocations
  that differ only in it make the same calls, hence leave whatever the callees own,
  the output buffer included, in the same state. On a live handle the one synthesizer
  call is the render call for \<open>num_frames\<close> frames into \<open>buffer\<close>, with the constant 1 as
  its last argument.
\<close>

theorem tsf_synth_ignores_volume:
  "tsf_synth ht h p buffer num_frames volume1 = tsf_synth ht h p buffer num_frames volume2
   \<and> perform exec (tsf_synth ht h p buffer num_frames volume1) w
       = perform exec (tsf_synth ht h p buffer num_frames volume2) w
   \<and> (h a = Some d \<longrightarrow>
        tsf_synth ht h (Ptr a) buffer num_frames volume1 =
          Inr ((if ht then [Slock_lock (synth_lock d)] else [])
               @ [Tsf_render_float (instance d) buffer num_frames 1]
               @ (if ht then [Slock_unlock (synth_lock d)] else [])))"
  by (simp add: tsf_synth_def)

theorem tsf_synth_ignores_volume_witness:
  "[1 \<mapsto> \<lparr>instance = Ptr 7, synth_lock = Ptr 8\<rparr>] 1
     = Some \<lparr>instance = Ptr 7, synth_lock = Ptr 8\<rparr>
   \<and> tsf_synth True [1 \<mapsto> \<lparr>instance = Ptr 7, synth_lock = Ptr 8\<rparr>] (Ptr 1) (Ptr 64) 512
        (Finite 0)
      = Inr [Slock_lock (Ptr 8), Tsf_render_float (Ptr 7) (Ptr 64) 512 1, Slock_unlock (Ptr 8)]
   \<and> tsf_synth True [1 \<mapsto> \<lparr>instance = Ptr 7, synth_lock = Ptr 8\<rparr>] (Ptr 1) (Ptr 64) 512
        (Finite 0)
      = tsf_synth True [1 \<mapsto> \<lparr>instance = Ptr 7, synth_lock = Ptr 8\<rparr>] (Ptr 1) (Ptr 64) 512
        (Finite 1)"
  using tsf_synth_ignores_volume
      [of True "[1 \<mapsto> \<lparr>instance = Ptr 7, synth_lock = Ptr 8\<rparr>]" "Ptr 1" "Ptr 64" 512
          "Finite 0" "Finite 1" "\<lambda>c w. w" "()" 1 "\<lparr>instance = Ptr 7, synth_lock = Ptr 8\<rparr>"]
  by auto

section \<open>Output enumeration\<close>

text \<open>
  Claim C10. Output enumeration reports success, and the list it leaves holds the
  four names \<open>SF2\<close>, \<open>sf2\<close>, \<open>GM\<close> and \<open>gm\<close>: they are appended, in this order,
  to what the list held before.
\<close>

theorem tsf_midi_get_avail_outputs_aliases:
  "fst (tsf_midi_get_avail_outputs outputs) = True
   \<and> {''SF2'', ''sf2'', ''GM'', ''gm''}
        \<subseteq> fst ` set (snd (tsf_midi_get_avail_outputs outputs))
   \<and> snd (tsf_midi_get_avail_outputs outputs)
        = outputs @ [(''SF2'', 0), (''sf2'', 0), (''GM'', 0), (''gm'', 0)]"
  by (simp add: tsf_midi_get_avail_outputs_def string_list_append_def)

theorem tsf_midi_get_avail_outputs_aliases_witness:
  "tsf_midi_get_avail_outputs [] =
     (True, [(''SF2'', 0), (''sf2'', 0), (''GM'', 0), (''gm'', 0)])"
  using tsf_midi_get_avail_outputs_aliases [of "[]"]
  by (simp add: prod_eq_iff)

section \<open>The window wrapper: visibility\<close>

text \<open>
  Claim C4. The claim is that \<open>ui_window_win32_set_visible\<close> shows the window when its
  boolean parameter is true and hides it when the parameter is false. The function as
  written makes the same \<open>ShowWindow\<close> call for both values of the parameter: with
  \<open>visible\<close> false the window is hidden although \<open>set_visible\<close> is true, and with
  \<open>visible\<close> true it is shown although \<open>set_visible\<close> is false.
\<close>

theorem ui_window_win32_set_visible_ignores_parameter:
  "ui_window_win32_set_visible visible window True
     = ui_window_win32_set_visible visible window False
   \<and> ui_window_win32_set_visible False window True = [ShowWindow (hwnd window) SW_HIDE]
   \<and> ui_window_win32_set_visible True window False = [ShowWindow (hwnd window) SW_SHOWNORMAL]"
  by (simp add: ui_window_win32_set_visible_def)

section \<open>Shutdown\<close>

text \<open>
  Claim C3, as amended. Shutdown with the null pointer is a no-op. Shutdown on a live
  handle closes the synthesizer instance, frees the lock in a threaded build and frees
  the handle, once each. The function receives the pointer by value and cannot clear
  the caller's copy: after a shutdown, only a call with the null pointer is a no-op.
  A second call with the same, already freed pointer passes the null check and reads
  the freed handle, which is undefined behaviour.
\<close>

theorem tsf_midi_free_null_check:
  "tsf_midi_free ht h NULL = Inr (h, [])
   \<and> (h a = Some d \<longrightarrow>
        tsf_midi_free ht h (Ptr a) =
          Inr (h(a := None),
               [Tsf_close (instance d)]
               @ (if ht then [Slock_free (synth_lock d)] else [])
               @ [Free (Ptr a)])
        \<and> tsf_midi_free ht (h(a := None)) NULL = Inr (h(a := None), [])
        \<and> tsf_midi_free ht (h(a := None)) (Ptr a) = Inl Dangling_pointer)"
  by (simp add: tsf_midi_free_def deref_def)

theorem tsf_midi_free_null_check_witness:
  "[1 \<mapsto> \<lparr>instance = Ptr 7, synth_lock = Ptr 8\<rparr>] 1
     = Some \<lparr>instance = Ptr 7, synth_lock = Ptr 8\<rparr>
   \<and> tsf_midi_free True [1 \<mapsto> \<lparr>instance = Ptr 7, synth_lock = Ptr 8\<rparr>] (Ptr 1)
       = Inr (Map.empty, [Tsf_close (Ptr 7), Slock_free (Ptr 8), Free (Ptr 1)])
   \<and> tsf_midi_free True Map.empty NULL = Inr (Map.empty, [])
   \<and> tsf_midi_free True Map.empty (Ptr 1) = Inl Dangling_pointer"
  using tsf_midi_free_null_check
      [of True "[1 \<mapsto> \<lparr>instance = Ptr 7, synth_lock = Ptr 8\<rparr>]" 1
          "\<lparr>instance = Ptr 7, synth_lock = Ptr 8\<rparr>"]
    tsf_midi_free_null_check [of True Map.empty 1 "\<lparr>instance = Ptr 7, synth_lock = Ptr 8\<rparr>"]
  by simp

text \<open>
  The claim as stated fails: after the shutdown of the handle at address 1, a second
  shutdown with the same pointer is not the no-op that leaves everything as it is.
  The pointer is not null, so the null check lets it through, and the function reads
  \<open>d->instance\<close> in the freed handle.
\<close>

theorem tsf_midi_free_twice_counterexample:
  "tsf_midi_free True [1 \<mapsto> \<lparr>instance = Ptr 7, synth_lock = Ptr 8\<rparr>] (Ptr 1)
       = Inr (Map.empty, [Tsf_close (Ptr 7), Slock_free (Ptr 8), Free (Ptr 1)])
   \<and> tsf_midi_free True Map.empty (Ptr 1) = Inl Dangling_pointer
   \<and> tsf_midi_free True Map.empty (Ptr 1) \<noteq> Inr (Map.empty, [])"
  by (simp add: tsf_midi_free_def deref_def)

section \<open>Initialization\<close>

lemma init_no_output: "tsf_midi_init ht env h input None = Inr (NULL, h, [])"
  by (simp add: tsf_midi_init_def)

lemma init_load_fails:
  assumes "sf2path = fill_pathname_join env (directory_system env) ''GM.SF2'' (PATH_MAX_LENGTH env)"
    and "tsf_load_filename env sf2path = NULL"
  shows "tsf_midi_init ht env h input (Some output) = Inr (NULL, h, [Tsf_load_filename sf2path])"
  using assms by (simp add: tsf_midi_init_def Let_def)

lemma init_succeeds:
  assumes "sf2path = fill_pathname_join env (directory_system env) ''GM.SF2'' (PATH_MAX_LENGTH env)"
    and "tsf_load_filename env sf2path = Ptr i"
    and "int_of_double (sample_rate env) = Inr rate"
    and "calloc env = Ptr a"
  shows "tsf_midi_init ht env h input (Some output) =
           Inr (Ptr a,
                h(a \<mapsto> \<lparr>instance = Ptr i,
                         synth_lock = (if ht then slock_new env else NULL)\<rparr>),
                [Tsf_load_filename sf2path,
                 Tsf_set_output (Ptr i) TSF_STEREO_INTERLEAVED rate (Finite 0),
                 Calloc]
                @ (if ht then [Slock_new] else [])
                @ [Audio_mixer_play_synth (Ptr a), Audio_driver_mixer_set_active])"
  using assms by (simp add: tsf_midi_init_def Let_def)

lemma init_null_only_on_failure:
  assumes "sf2path = fill_pathname_join env (directory_system env) ''GM.SF2'' (PATH_MAX_LENGTH env)"
    and "tsf_midi_init ht env h input output = Inr (NULL, h', calls)"
  shows "output = None \<or> tsf_load_filename env sf2path = NULL"
  using assms
  by (auto simp add: tsf_midi_init_def Let_def bindF_def
      split: option.splits if_splits sum.splits ptr.splits)

text \<open>
  Claim C8. With no output name, initialization returns the null pointer before any
  call into the synthesizer, so the sound bank is not loaded. With an output name and
  a loader that fails, it returns the null pointer after the one load call. With an
  output name, a loaded sound bank, a sample rate that fits an \<open>int\<close> and a successful
  allocation it returns the allocated handle, which is not null. It returns the null
  pointer in no other case.
\<close>

theorem tsf_midi_init_handle:
  assumes "sf2path = fill_pathname_join env (directory_system env) ''GM.SF2'' (PATH_MAX_LENGTH env)"
  shows "tsf_midi_init ht env h input None = Inr (NULL, h, [])
    \<and> (tsf_load_filename env sf2path = NULL \<longrightarrow>
         tsf_midi_init ht env h input (Some output) = Inr (NULL, h, [Tsf_load_filename sf2path]))
    \<and> (tsf_load_filename env sf2path = Ptr i \<and> int_of_double (sample_rate env) = Inr rate
         \<and> calloc env = Ptr a \<longrightarrow>
         tsf_midi_init ht env h input (Some output) =
           Inr (Ptr a,
                h(a \<mapsto> \<lparr>instance = Ptr i,
                         synth_lock = (if ht then slock_new env else NULL)\<rparr>),
                [Tsf_load_filename sf2path,
                 Tsf_set_output (Ptr i) TSF_STEREO_INTERLEAVED rate (Finite 0),
                 Calloc]
                @ (if ht then [Slock_new] else [])
                @ [Audio_mixer_play_synth (Ptr a), Audio_driver_mixer_set_active]))
    \<and> (\<forall>out h' calls. tsf_midi_init ht env h input out = Inr (NULL, h', calls) \<longrightarrow>
          out = None \<or> tsf_load_filename env sf2path = NULL)"
  using init_no_output [of ht env h input]
    init_load_fails [OF assms, of ht h input "output"]
    init_succeeds [OF assms, of i rate a ht h input "output"]
    init_null_only_on_failure [OF assms, of ht h input]
  by blast

theorem tsf_midi_init_handle_witness:
  "tsf_midi_init True
       \<lparr>directory_system = ''/system'', sample_rate = Finite 44100,
          PATH_MAX_LENGTH = 4096,
          fill_pathname_join = (\<lambda>dir file size. take (size - 1) (dir @ ''/'' @ file)),
          tsf_load_filename = (\<lambda>path. if path = ''/system/GM.SF2'' then Ptr 7 else NULL),
          calloc = Ptr 1, slock_new = Ptr 8\<rparr>
       Map.empty None None
     = Inr (NULL, Map.empty, [])
   \<and> tsf_midi_init True
       \<lparr>directory_system = ''/system'', sample_rate = Finite 44100,
          PATH_MAX_LENGTH = 4096,
          fill_pathname_join = (\<lambda>dir file size. take (size - 1) (dir @ ''/'' @ file)),
          tsf_load_filename = (\<lambda>path. NULL),
          calloc = Ptr 1, slock_new = Ptr 8\<rparr>
       Map.empty None (Some ''SF2'')
     = Inr (NULL, Map.empty, [Tsf_load_filename ''/system/GM.SF2''])
   \<and> tsf_midi_init True
       \<lparr>directory_system = ''/system'', sample_rate = Finite 44100,
          PATH_MAX_LENGTH = 4096,
          fill_pathname_join = (\<lambda>dir file size. take (size - 1) (dir @ ''/'' @ file)),
          tsf_load_filename = (\<lambda>path. if path = ''/system/GM.SF2'' then Ptr 7 else NULL),
          calloc = Ptr 1, slock_new = Ptr 8\<rparr>
       Map.empty None (Some ''SF2'')
     = Inr (Ptr 1, [1 \<mapsto> \<lparr>instance = Ptr 7, synth_lock = Ptr 8\<rparr>],
            [Tsf_load_filename ''/system/GM.SF2'',
             Tsf_set_output (Ptr 7) TSF_STEREO_INTERLEAVED 44100 (Finite 0),
             Calloc, Slock_new, Audio_mixer_play_synth (Ptr 1),
             Audio_driver_mixer_set_active])"
  using tsf_midi_init_handle
      [of "''/system/GM.SF2''"
          "\<lparr>directory_system = ''/system'', sample_rate = Finite 44100,
          PATH_MAX_LENGTH = 4096,
          fill_pathname_join = (\<lambda>dir file size. take (size - 1) (dir @ ''/'' @ file)),
          tsf_load_filename = (\<lambda>path. if path = ''/system/GM.SF2'' then Ptr 7 else NULL),
          calloc = Ptr 1, slock_new = Ptr 8\<rparr>"
          True Map.empty None "''SF2''" 7 44100 1]
    tsf_midi_init_handle
      [of "''/system/GM.SF2''"
          "\<lparr>directory_system = ''/system'', sample_rate = Finite 44100,
          PATH_MAX_LENGTH = 4096,
          fill_pathname_join = (\<lambda>dir file size. take (size - 1) (dir @ ''/'' @ file)),
          tsf_load_filename = (\<lambda>path. NULL),
          calloc = Ptr 1, slock_new = Ptr 8\<rparr>"
          True Map.empty None "''SF2''" 7 44100 1]
  by (simp add: int_of_double_def)

end
